theory Spec2Isabelle
  imports Complex_Main "HOL-Library.Multiset"
begin

section \<open>Numbers\<close>

text \<open>
  The engine of \<^verbatim>\<open>src/App.jsx\<close> computes with JavaScript numbers. A number is modelled
  as a real, or one of the three special values of IEEE 754; the sign of zero is not
  modelled (every zero is \<open>+0\<close>). Special values arise and spread as in the source:
  \<open>0 / 0\<close>, \<open>x / 0\<close>, the square root of a negative number, and every operation on
  \<open>NaN\<close>.

  Tower coordinates, query points, the resolution and the distance threshold are inputs
  and are finite (they come from map clicks or from a JSON file), so they are reals.

  The steps \<open>lat += res\<close> and \<open>lng += res\<close> of the grid loops are rounded to binary64
  (\<open>js_plus\<close>): whether a loop ends, and how many points it emits, depends on the
  rounding. \<open>Math.min\<close> and \<open>Math.max\<close> do not round. The arithmetic inside
  \<open>computeHdop\<close> and \<open>findTowerClusterCenter\<close> is kept in the order of the source with
  exact finite values; division, \<open>Math.sqrt\<close> and everything computed from their results
  are in \<open>jsnum\<close>.
\<close>

datatype jsnum = Fin real | PInf | NInf | NaN

fun js_neg :: "jsnum \<Rightarrow> jsnum" where
  "js_neg (Fin a) = Fin (- a)"
| "js_neg PInf = NInf"
| "js_neg NInf = PInf"
| "js_neg NaN = NaN"

fun js_add :: "jsnum \<Rightarrow> jsnum \<Rightarrow> jsnum" where
  "js_add NaN y = NaN"
| "js_add x NaN = NaN"
| "js_add (Fin a) (Fin b) = Fin (a + b)"
| "js_add PInf NInf = NaN"
| "js_add NInf PInf = NaN"
| "js_add PInf y = PInf"
| "js_add NInf y = NInf"
| "js_add (Fin a) y = y"

definition js_sub :: "jsnum \<Rightarrow> jsnum \<Rightarrow> jsnum" where
  "js_sub x y = js_add x (js_neg y)"

fun js_inf_times :: "jsnum \<Rightarrow> real \<Rightarrow> jsnum" where
  "js_inf_times i b = (if b = 0 then NaN else if 0 < b then i else js_neg i)"

fun js_mul :: "jsnum \<Rightarrow> jsnum \<Rightarrow> jsnum" where
  "js_mul NaN y = NaN"
| "js_mul x NaN = NaN"
| "js_mul (Fin a) (Fin b) = Fin (a * b)"
| "js_mul (Fin a) y = js_inf_times y a"
| "js_mul x (Fin b) = js_inf_times x b"
| "js_mul PInf y = y"
| "js_mul NInf y = js_neg y"

fun js_div :: "jsnum \<Rightarrow> jsnum \<Rightarrow> jsnum" where
  "js_div NaN y = NaN"
| "js_div x NaN = NaN"
| "js_div (Fin a) (Fin b) =
     (if b = 0 then (if a = 0 then NaN else if 0 < a then PInf else NInf)
      else Fin (a / b))"
| "js_div (Fin a) y = Fin 0"
| "js_div x (Fin b) = (if 0 \<le> b then x else js_neg x)"
| "js_div x y = NaN"

fun js_sqrt :: "jsnum \<Rightarrow> jsnum" where
  "js_sqrt (Fin a) = (if a < 0 then NaN else Fin (sqrt a))"
| "js_sqrt PInf = PInf"
| "js_sqrt NInf = NaN"
| "js_sqrt NaN = NaN"

fun js_lt :: "jsnum \<Rightarrow> jsnum \<Rightarrow> bool" where
  "js_lt NaN y = False"
| "js_lt x NaN = False"
| "js_lt (Fin a) (Fin b) = (a < b)"
| "js_lt x PInf = (x \<noteq> PInf)"
| "js_lt NInf y = (y \<noteq> NInf)"
| "js_lt x y = False"

text \<open>\<open>Math.atan2(y, x)\<close> on finite arguments, and its values at the infinities.\<close>

definition atan2 :: "real \<Rightarrow> real \<Rightarrow> real" where
  "atan2 y x =
     (if 0 < x then arctan (y / x)
      else if x < 0 then (if 0 \<le> y then arctan (y / x) + pi else arctan (y / x) - pi)
      else if 0 < y then pi / 2
      else if y < 0 then - (pi / 2)
      else 0)"

fun js_atan2 :: "jsnum \<Rightarrow> jsnum \<Rightarrow> jsnum" where
  "js_atan2 NaN x = NaN"
| "js_atan2 y NaN = NaN"
| "js_atan2 (Fin y) (Fin x) = Fin (atan2 y x)"
| "js_atan2 (Fin y) PInf = Fin 0"
| "js_atan2 (Fin y) NInf = (if 0 \<le> y then Fin pi else Fin (- pi))"
| "js_atan2 PInf (Fin x) = Fin (pi / 2)"
| "js_atan2 NInf (Fin x) = Fin (- (pi / 2))"
| "js_atan2 PInf PInf = Fin (pi / 4)"
| "js_atan2 PInf NInf = Fin (3 * pi / 4)"
| "js_atan2 NInf PInf = Fin (- (pi / 4))"
| "js_atan2 NInf NInf = Fin (- (3 * pi / 4))"

text \<open>
  Rounding to binary64, round to nearest, ties to even. The spacing of the doubles around
  \<open>x\<close> is \<open>2\<close> to the power \<open>ulp_exponent x\<close>: 52 binary places below the leading
  bit of \<open>x\<close>, and \<open>2\<^sup>-\<^sup>1\<^sup>0\<^sup>7\<^sup>4\<close> in the subnormal range. \<open>nearest_double x\<close> is the
  multiple of the spacing nearest to \<open>x\<close>; it is also the number that a numeral of the
  source text denotes (\<open>nearest_double 0.001\<close> is the JavaScript number \<open>0.001\<close>).
  A result of magnitude \<open>2\<^sup>1\<^sup>0\<^sup>2\<^sup>4\<close> or more is an infinity.
\<close>

definition round_half_even :: "real \<Rightarrow> int" where
  "round_half_even q =
     (let f = \<lfloor>q\<rfloor>; d = q - of_int f
      in if d < 1 / 2 then f
         else if 1 / 2 < d then f + 1
         else if even f then f else f + 1)"

definition ulp_exponent :: "real \<Rightarrow> int" where
  "ulp_exponent x = max \<lfloor>log 2 \<bar>x\<bar>\<rfloor> (- 1022) - 52"

definition nearest_double :: "real \<Rightarrow> real" where
  "nearest_double x =
     (if x = 0 then 0
      else of_int (round_half_even (x / 2 powr of_int (ulp_exponent x)))
             * 2 powr of_int (ulp_exponent x))"

definition js_round :: "real \<Rightarrow> jsnum" where
  "js_round x =
     (let y = nearest_double x
      in if 2 ^ 1024 \<le> y then PInf
         else if y \<le> - (2 ^ 1024) then NInf
         else Fin y)"

text \<open>\<open>x + y\<close> on two finite numbers, as the machine computes it.\<close>

definition js_plus :: "real \<Rightarrow> real \<Rightarrow> jsnum" where
  "js_plus x y = js_round (x + y)"

text \<open>
  The results the claims speak about: a finite value that is not negative, and the
  sentinel 100.
\<close>

fun finite_nonneg :: "jsnum \<Rightarrow> bool" where
  "finite_nonneg (Fin a) = (0 \<le> a)"
| "finite_nonneg x = False"

section \<open>Data model\<close>

record tower =
  tower_id :: nat
  tower_lat :: real
  tower_lng :: real

record grid_point =
  gp_lat :: real
  gp_lng :: real
  gp_hdop :: jsnum
  gp_res :: real

text \<open>
  The only exception the engine can raise is the \<open>TypeError\<close> of reading a property of
  \<open>undefined\<close>. A function that can raise returns \<open>js_error + 'a\<close>.
\<close>

datatype js_error = TypeError

text \<open>Sequencing: an exception raised by the first computation ends the whole.\<close>

definition bind_result :: "js_error + 'a \<Rightarrow> ('a \<Rightarrow> js_error + 'b) \<Rightarrow> js_error + 'b" where
  "bind_result r f = (case r of Inl e \<Rightarrow> Inl e | Inr x \<Rightarrow> f x)"

fun map_result :: "('a \<Rightarrow> js_error + 'b) \<Rightarrow> 'a list \<Rightarrow> js_error + 'b list" where
  "map_result f [] = Inr []"
| "map_result f (x # xs) =
     bind_result (f x) (\<lambda>y. bind_result (map_result f xs) (\<lambda>ys. Inr (y # ys)))"

section \<open>Matrix helpers\<close>

text \<open>
  \<open>row[i]\<close> on an array of numbers. Past the end JavaScript gives \<open>undefined\<close>; every
  place of this program that consumes a matrix entry does arithmetic on it, where
  \<open>undefined\<close> is \<open>NaN\<close>.
\<close>

definition js_index :: "jsnum list \<Rightarrow> nat \<Rightarrow> jsnum" where
  "js_index row i = (if i < length row then row ! i else NaN)"

text \<open>\<open>m[i][j]\<close>: reading \<open>[j]\<close> of a missing row raises.\<close>

definition js_index2 :: "jsnum list list \<Rightarrow> nat \<Rightarrow> nat \<Rightarrow> js_error + jsnum" where
  "js_index2 m i j = (if i < length m then Inr (js_index (m ! i) j) else Inl TypeError)"

text \<open>\<^verbatim>\<open>m[0].map((_, i) => m.map(row => row[i]))\<close>\<close>

definition mathTranspose :: "jsnum list list \<Rightarrow> js_error + jsnum list list" where
  "mathTranspose m =
     (case m of
        [] \<Rightarrow> Inl TypeError
      | m0 # _ \<Rightarrow> Inr (map (\<lambda>i. map (\<lambda>row. js_index row i) m) [0..<length m0]))"

text \<open>\<^verbatim>\<open>row.reduce((sum, v, i) => sum + v * b[i][j], 0)\<close>\<close>

definition reduce_cell :: "jsnum list list \<Rightarrow> nat \<Rightarrow> jsnum list \<Rightarrow> js_error + jsnum" where
  "reduce_cell b j row =
     foldl (\<lambda>acc (i, v).
              bind_result acc (\<lambda>s.
              bind_result (js_index2 b i j) (\<lambda>x. Inr (js_add s (js_mul v x)))))
           (Inr (Fin 0)) (enumerate 0 row)"

text \<open>\<^verbatim>\<open>a.map(row => b[0].map((_, j) => row.reduce(...)))\<close>\<close>

definition mathMultiply :: "jsnum list list \<Rightarrow> jsnum list list \<Rightarrow> js_error + jsnum list list" where
  "mathMultiply a b =
     map_result (\<lambda>row.
        case b of
          [] \<Rightarrow> Inl TypeError
        | b0 # _ \<Rightarrow> map_result (\<lambda>j. reduce_cell b j row) [0..<length b0]) a"

section \<open>HDOP estimator\<close>

text \<open>The row of the design matrix for one tower: the callback of \<open>towers.map\<close>.\<close>

definition los_row :: "real \<Rightarrow> real \<Rightarrow> tower \<Rightarrow> jsnum list" where
  "los_row lat lng t =
     (let dx = tower_lng t - lng;
          dy = tower_lat t - lat;
          norm = js_sqrt (Fin (dx * dx + dy * dy))
      in [js_div (Fin dx) norm, js_div (Fin dy) norm])"

definition computeHdop :: "real \<Rightarrow> real \<Rightarrow> tower list \<Rightarrow> js_error + jsnum" where
  "computeHdop lat lng towers =
     (if length towers < 3 then Inr (Fin 100)
      else
        let A = map (los_row lat lng) towers in
        bind_result (mathTranspose A) (\<lambda>At.
        bind_result (mathMultiply At A) (\<lambda>G.
        bind_result (js_index2 G 0 0) (\<lambda>g00.
        bind_result (js_index2 G 1 1) (\<lambda>g11.
        bind_result (js_index2 G 0 1) (\<lambda>g01.
        bind_result (js_index2 G 1 0) (\<lambda>g10.
          let det = js_sub (js_mul g00 g11) (js_mul g01 g10) in
          if det = Fin 0 then Inr (Fin 100)
          else
            let inv00 = js_div g11 det;
                inv01 = js_div (js_neg g01) det;
                inv10 = js_div (js_neg g10) det;
                inv11 = js_div g00 det
            in Inr (js_sqrt (js_add inv00 inv11)))))))))"

text \<open>
  The entry \<open>(i, j)\<close> of the normal matrix \<open>A\<^sup>T A\<close>: the sum over the rows \<open>r\<close> of \<open>A\<close>
  of \<open>r[i] * r[j]\<close>, from 0, in row order.
\<close>

definition normal_entry :: "jsnum list list \<Rightarrow> nat \<Rightarrow> nat \<Rightarrow> jsnum" where
  "normal_entry A i j = foldl (\<lambda>s r. js_add s (js_mul (js_index r i) (js_index r j))) (Fin 0) A"

section \<open>Coverage grid builder\<close>

text \<open>The four variables \<open>latMin\<close>, \<open>latMax\<close>, \<open>lngMin\<close>, \<open>lngMax\<close> of \<open>generateGrid\<close>.\<close>

record bounds =
  latMin :: real
  latMax :: real
  lngMin :: real
  lngMax :: real

text \<open>The \<open>towers.forEach\<close> loop, from the initial values 90, -90, 180, -180.\<close>

definition bounding_box :: "tower list \<Rightarrow> bounds" where
  "bounding_box towers =
     foldl (\<lambda>b t. \<lparr>latMin = min (latMin b) (tower_lat t),
                     latMax = max (latMax b) (tower_lat t),
                     lngMin = min (lngMin b) (tower_lng t),
                     lngMax = max (lngMax b) (tower_lng t)\<rparr>)
           \<lparr>latMin = 90, latMax = - 90, lngMin = 180, lngMax = - 180\<rparr> towers"

text \<open>
  The two \<open>for\<close> loops. Nothing bounds the number of iterations (a resolution of
  zero, or one so small that adding it leaves the loop variable unchanged, never leaves
  the loop), so a loop that does not return is the value \<open>None\<close>; \<open>Some (Inl e)\<close> is an
  exception and \<open>Some (Inr results)\<close> the array \<open>results\<close> after the loop.

  The loop variable is finite while the loop runs. The step \<open>lng += res\<close> is the rounded
  sum \<open>js_plus lng res\<close>. When it overflows to \<open>Infinity\<close> the guard \<open>lng <= lngMax\<close>
  fails and the loop ends. When it overflows to \<open>-Infinity\<close> the guard holds from then
  on, since \<open>-Infinity + res\<close> is \<open>-Infinity\<close> again, and the loop never ends. The sum of
  two finite numbers is not \<open>NaN\<close>; on \<open>NaN\<close> the guard fails.
\<close>

partial_function (option) lng_loop ::
  "tower list \<Rightarrow> real \<Rightarrow> bounds \<Rightarrow> real \<Rightarrow> real \<Rightarrow> grid_point list
     \<Rightarrow> (js_error + grid_point list) option" where
  "lng_loop towers res b lat lng results =
     (if lng \<le> lngMax b then
        (case computeHdop lat lng towers of
           Inl e \<Rightarrow> Some (Inl e)
         | Inr hdop \<Rightarrow>
             (case js_plus lng res of
                Fin lng' \<Rightarrow>
                  lng_loop towers res b lat lng'
                    (results @ [\<lparr>gp_lat = lat, gp_lng = lng, gp_hdop = hdop, gp_res = res\<rparr>])
              | PInf \<Rightarrow>
                  Some (Inr (results @ [\<lparr>gp_lat = lat, gp_lng = lng, gp_hdop = hdop, gp_res = res\<rparr>]))
              | NInf \<Rightarrow> None
              | NaN \<Rightarrow>
                  Some (Inr (results @ [\<lparr>gp_lat = lat, gp_lng = lng, gp_hdop = hdop, gp_res = res\<rparr>]))))
      else Some (Inr results))"

partial_function (option) lat_loop ::
  "tower list \<Rightarrow> real \<Rightarrow> bounds \<Rightarrow> real \<Rightarrow> grid_point list
     \<Rightarrow> (js_error + grid_point list) option" where
  "lat_loop towers res b lat results =
     (if lat \<le> latMax b then
        Option.bind (lng_loop towers res b lat (lngMin b) results) (\<lambda>r.
          case r of
            Inl e \<Rightarrow> Some (Inl e)
          | Inr results' \<Rightarrow>
              (case js_plus lat res of
                 Fin lat' \<Rightarrow> lat_loop towers res b lat' results'
               | PInf \<Rightarrow> Some (Inr results')
               | NInf \<Rightarrow> None
               | NaN \<Rightarrow> Some (Inr results')))
      else Some (Inr results))"

text \<open>\<open>generateGrid(towers, res = 0.0005)\<close>: \<open>None\<close> as second argument is the default.\<close>

definition generateGrid :: "tower list \<Rightarrow> real option \<Rightarrow> (js_error + grid_point list) option" where
  "generateGrid towers res_arg =
     (let res = (case res_arg of None \<Rightarrow> 0.0005 | Some r \<Rightarrow> r) in
      if length towers < 3 then Some (Inr [])
      else
        let b = bounding_box towers
        in lat_loop towers res b (latMin b) [])"


section \<open>Tower cluster locator\<close>

definition toRad :: "real \<Rightarrow> real" where
  "toRad deg = deg * pi / 180"

definition earthRadiusKm :: real where
  "earthRadiusKm = 6371"

text \<open>
  The local function \<open>haversine\<close> of \<open>findTowerClusterCenter\<close>, as written: \<open>dLon\<close> is
  computed from \<open>lat2 - lon1\<close> and the parameter \<open>lon2\<close> is not used.
\<close>

definition haversine :: "real \<Rightarrow> real \<Rightarrow> real \<Rightarrow> real \<Rightarrow> jsnum" where
  "haversine lat1 lon1 lat2 lon2 =
     (let dLat = toRad (lat2 - lat1);
          dLon = toRad (lat2 - lon1);
          a = (sin (dLat / 2))\<^sup>2 + cos (toRad lat1) * cos (toRad lat2) * (sin (dLon / 2))\<^sup>2
      in js_mul (Fin (earthRadiusKm * 2)) (js_atan2 (js_sqrt (Fin a)) (js_sqrt (Fin (1 - a)))))"

text \<open>
  The haversine distance as the specification words it (4.1): mean Earth radius 6371 km,
  angles in radians, the longitude term from the difference of the two longitudes. It is
  the reference the source's \<open>haversine\<close> is compared with.
\<close>

definition haversineDistanceKm :: "real \<Rightarrow> real \<Rightarrow> real \<Rightarrow> real \<Rightarrow> jsnum" where
  "haversineDistanceKm lat1 lng1 lat2 lng2 =
     (let dLat = toRad (lat2 - lat1);
          dLng = toRad (lng2 - lng1);
          a = (sin (dLat / 2))\<^sup>2 + cos (toRad lat1) * cos (toRad lat2) * (sin (dLng / 2))\<^sup>2
      in js_mul (Fin (earthRadiusKm * 2)) (js_atan2 (js_sqrt (Fin a)) (js_sqrt (Fin (1 - a)))))"

text \<open>The predicate of \<open>group.some\<close>: \<open>t\<close> is a member of the group, \<open>base\<close> the new tower.\<close>

definition within_threshold :: "real \<Rightarrow> tower \<Rightarrow> tower \<Rightarrow> bool" where
  "within_threshold distanceThreshold base t =
     js_lt (haversine (tower_lat t) (tower_lng t) (tower_lat base) (tower_lng base))
           (Fin distanceThreshold)"

text \<open>
  The inner \<open>for (const group of groups)\<close>: the first group with a member within the
  threshold receives \<open>base\<close>; \<open>None\<close> is \<open>found = false\<close>.
\<close>

fun join_group :: "real \<Rightarrow> tower \<Rightarrow> tower list list \<Rightarrow> tower list list option" where
  "join_group distanceThreshold base [] = None"
| "join_group distanceThreshold base (grp # rest) =
     (if list_ex (within_threshold distanceThreshold base) grp
      then Some ((grp @ [base]) # rest)
      else map_option ((#) grp) (join_group distanceThreshold base rest))"

definition place_tower :: "real \<Rightarrow> tower list list \<Rightarrow> tower \<Rightarrow> tower list list" where
  "place_tower distanceThreshold groups base =
     (case join_group distanceThreshold base groups of
        Some groups' \<Rightarrow> groups'
      | None \<Rightarrow> groups @ [[base]])"

definition group_towers :: "real \<Rightarrow> tower list \<Rightarrow> tower list list" where
  "group_towers distanceThreshold towers = foldl (place_tower distanceThreshold) [] towers"

text \<open>\<^verbatim>\<open>groups.reduce((a, b) => (a.length > b.length ? a : b), [])\<close>\<close>

definition largest_group :: "tower list list \<Rightarrow> tower list" where
  "largest_group groups = foldl (\<lambda>a b. if length a > length b then a else b) [] groups"

text \<open>
  \<open>findTowerClusterCenter(towers, distanceThreshold = 0.3)\<close>: \<open>None\<close> as second argument
  is the default; the result \<open>None\<close> is \<open>null\<close>.
\<close>

definition findTowerClusterCenter :: "tower list \<Rightarrow> real option \<Rightarrow> (jsnum \<times> jsnum) option" where
  "findTowerClusterCenter towers threshold_arg =
     (let distanceThreshold = (case threshold_arg of None \<Rightarrow> 0.3 | Some d \<Rightarrow> d) in
      if length towers = 0 then None
      else
        let groups = group_towers distanceThreshold towers;
            largest = largest_group groups;
            avgLat = js_div (Fin (foldl (\<lambda>s t. s + tower_lat t) 0 largest))
                            (Fin (real (length largest)));
            avgLng = js_div (Fin (foldl (\<lambda>s t. s + tower_lng t) 0 largest))
                            (Fin (real (length largest)))
        in Some (avgLat, avgLng))"

section \<open>Properties of the matrix helpers and of the estimator\<close>

lemma los_row_length: "length (los_row lat lng t) = 2"
  by (simp add: los_row_def Let_def)

lemma upt_two: "[0..<2] = [0, Suc 0]"
  by (simp add: upt_rec)

lemma mathTranspose_rows2:
  assumes "A \<noteq> []" and "\<forall>r\<in>set A. length r = 2"
  shows "mathTranspose A = Inr [map (\<lambda>r. js_index r 0) A, map (\<lambda>r. js_index r 1) A]"
proof -
  from assms obtain a A' where A: "A = a # A'" by (cases A) auto
  with assms have "length a = 2" by simp
  then show ?thesis by (simp add: mathTranspose_def A upt_two)
qed

lemma reduce_fold:
  assumes "length pre = n"
  shows "foldl (\<lambda>acc (i, v). bind_result acc (\<lambda>s.
              bind_result (js_index2 (pre @ xs) i j) (\<lambda>x. Inr (js_add s (js_mul v x)))))
           (Inr s0) (enumerate n (map (\<lambda>r. js_index r k) xs))
         = Inr (foldl (\<lambda>s r. js_add s (js_mul (js_index r k) (js_index r j))) s0 xs)"
  using assms
proof (induction xs arbitrary: pre n s0)
  case Nil
  then show ?case by simp
next
  case (Cons x xs)
  have "length (pre @ [x]) = Suc n" using Cons.prems by simp
  from Cons.IH[OF this] Cons.prems show ?case
    by (simp add: bind_result_def js_index2_def nth_append)
qed

lemma reduce_cell_column:
  "reduce_cell A j (map (\<lambda>r. js_index r k) A) = Inr (normal_entry A k j)"
  unfolding reduce_cell_def normal_entry_def
  using reduce_fold[of "[]" 0 A j "Fin 0" k] by simp

lemma mathMultiply_normal:
  assumes "A \<noteq> []" and "\<forall>r\<in>set A. length r = 2"
  shows "mathMultiply [map (\<lambda>r. js_index r 0) A, map (\<lambda>r. js_index r 1) A] A
         = Inr [[normal_entry A 0 0, normal_entry A 0 1], [normal_entry A 1 0, normal_entry A 1 1]]"
proof -
  from assms obtain a A' where A: "A = a # A'" by (cases A) auto
  with assms have la: "length a = 2" by simp
  have "mathMultiply [map (\<lambda>r. js_index r 0) A, map (\<lambda>r. js_index r 1) A] A
        = bind_result (map_result (\<lambda>j. reduce_cell A j (map (\<lambda>r. js_index r 0) A)) [0, Suc 0])
            (\<lambda>y. bind_result (bind_result (map_result (\<lambda>j. reduce_cell A j (map (\<lambda>r. js_index r 1) A)) [0, Suc 0]) (\<lambda>y. Inr [y])) (\<lambda>ys. Inr (y # ys)))"
    unfolding mathMultiply_def by (simp add: A la upt_two bind_result_def)
  then show ?thesis
    by (simp add: reduce_cell_column bind_result_def)
qed

lemma computeHdop_normal:
  assumes "3 \<le> length towers"
  shows "computeHdop lat lng towers =
     Inr (let A = map (los_row lat lng) towers;
              g00 = normal_entry A 0 0; g11 = normal_entry A 1 1;
              g01 = normal_entry A 0 1; g10 = normal_entry A 1 0;
              det = js_sub (js_mul g00 g11) (js_mul g01 g10)
          in if det = Fin 0 then Fin 100
             else js_sqrt (js_add (js_div g11 det) (js_div g00 det)))"
proof -
  let ?A = "map (los_row lat lng) towers"
  have ne: "?A \<noteq> []" using assms by auto
  have two: "\<forall>r\<in>set ?A. length r = 2" by (auto simp: los_row_length)
  have T: "mathTranspose ?A = Inr [map (\<lambda>r. js_index r 0) ?A, map (\<lambda>r. js_index r 1) ?A]"
    by (rule mathTranspose_rows2[OF ne two])
  have M: "mathMultiply [map (\<lambda>r. js_index r 0) ?A, map (\<lambda>r. js_index r 1) ?A] ?A
         = Inr [[normal_entry ?A 0 0, normal_entry ?A 0 1], [normal_entry ?A 1 0, normal_entry ?A 1 1]]"
    by (rule mathMultiply_normal[OF ne two])
  have "\<not> length towers < 3" using assms by simp
  then show ?thesis
    unfolding computeHdop_def Let_def
    by (simp only: if_False T M bind_result_def sum.case)
       (simp add: js_index2_def js_index_def)
qed

lemma js_add_NaN_right: "js_add x NaN = NaN"
  by (cases x) simp_all

lemma js_mul_NaN_right: "js_mul x NaN = NaN"
  by (cases x) simp_all

lemma js_div_NaN_right: "js_div x NaN = NaN"
  by (cases x) simp_all

lemma normal_fold_NaN:
  "foldl (\<lambda>s r. js_add s (js_mul (js_index r i) (js_index r j))) NaN xs = NaN"
  by (induction xs) simp_all

lemma normal_fold_poisoned:
  assumes "r \<in> set xs" and "js_index r i = NaN \<or> js_index r j = NaN"
  shows "foldl (\<lambda>s r. js_add s (js_mul (js_index r i) (js_index r j))) s0 xs = NaN"
  using assms
proof (induction xs arbitrary: s0)
  case Nil
  then show ?case by simp
next
  case (Cons x xs)
  show ?case
  proof (cases "r = x")
    case True
    with Cons.prems(2) have "js_mul (js_index x i) (js_index x j) = NaN"
      by (auto simp: js_mul_NaN_right)
    then show ?thesis by (simp add: js_add_NaN_right normal_fold_NaN)
  next
    case False
    with Cons.prems have "r \<in> set xs" by simp
    from Cons.IH[OF this Cons.prems(2)] show ?thesis by simp
  qed
qed

lemma los_row_coincident:
  "tower_lat t = lat \<Longrightarrow> tower_lng t = lng \<Longrightarrow> los_row lat lng t = [NaN, NaN]"
  by (simp add: los_row_def)

lemma normal_entry_coincident:
  assumes "t \<in> set towers" "tower_lat t = lat" "tower_lng t = lng" "i < 2"
  shows "normal_entry (map (los_row lat lng) towers) i j = NaN"
proof -
  have "los_row lat lng t \<in> set (map (los_row lat lng) towers)" using assms(1) by simp
  moreover have "js_index (los_row lat lng t) i = NaN"
    using assms by (auto simp: los_row_coincident js_index_def nth_Cons split: nat.splits)
  ultimately show ?thesis
    unfolding normal_entry_def using normal_fold_poisoned by blast
qed

lemma computeHdop_coincident:
  assumes "3 \<le> length towers" "t \<in> set towers" "tower_lat t = lat" "tower_lng t = lng"
  shows "computeHdop lat lng towers = Inr NaN"
  by (simp add: computeHdop_normal[OF assms(1)] normal_entry_coincident[OF assms(2-4)] js_sub_def)

subsection \<open>Away from the towers\<close>

text \<open>
  When no tower sits at the query point every row of the design matrix is a pair of
  finite numbers, the determinant of the normal matrix is not negative (Cauchy-Schwarz),
  and the result is the sentinel or a finite number that is not negative.
\<close>

lemma los_row_finite:
  assumes "tower_lat t \<noteq> lat \<or> tower_lng t \<noteq> lng"
  shows "los_row lat lng t =
     [Fin ((tower_lng t - lng) / sqrt ((tower_lng t - lng) * (tower_lng t - lng)
                                       + (tower_lat t - lat) * (tower_lat t - lat))),
      Fin ((tower_lat t - lat) / sqrt ((tower_lng t - lng) * (tower_lng t - lng)
                                       + (tower_lat t - lat) * (tower_lat t - lat)))]"
proof -
  let ?dx = "tower_lng t - lng" and ?dy = "tower_lat t - lat"
  have "?dx \<noteq> 0 \<or> ?dy \<noteq> 0" using assms by auto
  then have pos: "0 < ?dx * ?dx + ?dy * ?dy"
    using sum_squares_gt_zero_iff[of ?dx ?dy] by blast
  then show ?thesis
    using assms by (auto simp: los_row_def Let_def)
qed

lemma normal_fold_finite:
  assumes "\<forall>t\<in>set ts. js_index (f t) i = Fin (x t) \<and> js_index (f t) j = Fin (y t)"
  shows "foldl (\<lambda>s r. js_add s (js_mul (js_index r i) (js_index r j))) (Fin s0) (map f ts)
         = Fin (s0 + (\<Sum>t\<leftarrow>ts. x t * y t))"
  using assms by (induction ts arbitrary: s0) (simp_all add: algebra_simps)

lemma cauchy_schwarz_list:
  fixes x y :: "'a \<Rightarrow> real"
  shows "(\<Sum>t\<leftarrow>ts. x t * y t)\<^sup>2 \<le> (\<Sum>t\<leftarrow>ts. x t * x t) * (\<Sum>t\<leftarrow>ts. y t * y t)
       \<and> 0 \<le> (\<Sum>t\<leftarrow>ts. x t * x t) \<and> 0 \<le> (\<Sum>t\<leftarrow>ts. y t * y t)"
proof (induction ts)
  case Nil
  then show ?case by simp
next
  case (Cons t ts)
  define a where "a = (\<Sum>t\<leftarrow>ts. x t * x t)"
  define b where "b = (\<Sum>t\<leftarrow>ts. y t * y t)"
  define c where "c = (\<Sum>t\<leftarrow>ts. x t * y t)"
  define u where "u = x t"
  define v where "v = y t"
  from Cons.IH have cs: "c\<^sup>2 \<le> a * b" and a: "0 \<le> a" and b: "0 \<le> b"
    by (simp_all add: a_def b_def c_def)
  have id: "(a * v\<^sup>2 + b * u\<^sup>2)\<^sup>2 - (2 * c * u * v)\<^sup>2
            = (a * v\<^sup>2 - b * u\<^sup>2)\<^sup>2 + 4 * (u * v)\<^sup>2 * (a * b - c\<^sup>2)"
    by (simp add: power2_eq_square algebra_simps)
  have "0 \<le> 4 * (u * v)\<^sup>2 * (a * b - c\<^sup>2)"
    using cs by (intro mult_nonneg_nonneg) simp_all
  moreover have "0 \<le> (a * v\<^sup>2 - b * u\<^sup>2)\<^sup>2" by simp
  ultimately have "0 \<le> (a * v\<^sup>2 + b * u\<^sup>2)\<^sup>2 - (2 * c * u * v)\<^sup>2"
    unfolding id by (rule add_nonneg_nonneg[rotated])
  then have sq: "(2 * c * u * v)\<^sup>2 \<le> (a * v\<^sup>2 + b * u\<^sup>2)\<^sup>2"
    by linarith
  have nn: "0 \<le> a * v\<^sup>2 + b * u\<^sup>2" using a b by simp
  from power2_le_imp_le[OF sq nn] have m: "2 * c * u * v \<le> a * v\<^sup>2 + b * u\<^sup>2" .
  have "(c + u * v)\<^sup>2 = c\<^sup>2 + 2 * c * u * v + u\<^sup>2 * v\<^sup>2"
    by (simp add: power2_eq_square algebra_simps)
  also have "\<dots> \<le> a * b + (a * v\<^sup>2 + b * u\<^sup>2) + u\<^sup>2 * v\<^sup>2"
    using cs m by linarith
  also have "\<dots> = (a + u * u) * (b + v * v)"
    by (simp add: power2_eq_square algebra_simps)
  finally have "(c + u * v)\<^sup>2 \<le> (a + u * u) * (b + v * v)" .
  moreover have "0 \<le> a + u * u" "0 \<le> b + v * v" using a b by simp_all
  ultimately show ?case
    by (simp add: a_def b_def c_def u_def v_def add.commute)
qed

lemma computeHdop_away_from_towers:
  assumes "\<forall>t\<in>set towers. tower_lat t \<noteq> lat \<or> tower_lng t \<noteq> lng"
  shows "\<exists>h. computeHdop lat lng towers = Inr h \<and> (finite_nonneg h \<or> h = Fin 100)"
proof (cases "length towers < 3")
  case True
  then show ?thesis by (simp add: computeHdop_def)
next
  case False
  then have len: "3 \<le> length towers" by simp
  define ux :: "tower \<Rightarrow> real" where "ux = (\<lambda>t. (tower_lng t - lng) / sqrt ((tower_lng t - lng) * (tower_lng t - lng)
                                       + (tower_lat t - lat) * (tower_lat t - lat)))"
  define uy :: "tower \<Rightarrow> real" where "uy = (\<lambda>t. (tower_lat t - lat) / sqrt ((tower_lng t - lng) * (tower_lng t - lng)
                                       + (tower_lat t - lat) * (tower_lat t - lat)))"
  have rows: "\<forall>t\<in>set towers. js_index (los_row lat lng t) 0 = Fin (ux t)
                             \<and> js_index (los_row lat lng t) 1 = Fin (uy t)"
    using assms by (auto simp: los_row_finite js_index_def ux_def uy_def)
  define a where "a = (\<Sum>t\<leftarrow>towers. ux t * ux t)"
  define b where "b = (\<Sum>t\<leftarrow>towers. uy t * uy t)"
  define c where "c = (\<Sum>t\<leftarrow>towers. ux t * uy t)"
  have g00: "normal_entry (map (los_row lat lng) towers) 0 0 = Fin a"
    unfolding normal_entry_def a_def
    using normal_fold_finite[of towers "los_row lat lng" 0 ux 0 ux 0] rows by simp
  have g11: "normal_entry (map (los_row lat lng) towers) 1 1 = Fin b"
    unfolding normal_entry_def b_def
    using normal_fold_finite[of towers "los_row lat lng" 1 uy 1 uy 0] rows by simp
  have g01: "normal_entry (map (los_row lat lng) towers) 0 1 = Fin c"
    unfolding normal_entry_def c_def
    using normal_fold_finite[of towers "los_row lat lng" 0 ux 1 uy 0] rows by simp
  have g10: "normal_entry (map (los_row lat lng) towers) 1 0 = Fin c"
    unfolding normal_entry_def c_def
    using normal_fold_finite[of towers "los_row lat lng" 1 uy 0 ux 0] rows
    by (simp add: mult.commute)
  from cauchy_schwarz_list[of ux uy towers]
  have cs: "c\<^sup>2 \<le> a * b" and a: "0 \<le> a" and b: "0 \<le> b"
    by (simp_all add: a_def b_def c_def)
  then have d: "0 \<le> a * b - c * c" by (simp add: power2_eq_square)
  have res: "computeHdop lat lng towers =
     Inr (if a * b - c * c = 0 then Fin 100
          else js_sqrt (Fin (b / (a * b - c * c) + a / (a * b - c * c))))"
    unfolding computeHdop_normal[OF len] Let_def g00 g11 g01 g10
    by (simp add: js_sub_def)
  show ?thesis
  proof (cases "a * b - c * c = 0")
    case True
    with res show ?thesis by simp
  next
    case False
    with d have "0 < a * b - c * c" by simp
    then have "0 \<le> b / (a * b - c * c) + a / (a * b - c * c)"
      using a b by (intro add_nonneg_nonneg divide_nonneg_pos)
    with res False show ?thesis by simp
  qed
qed

section \<open>Properties of rounding\<close>

lemma round_half_even_int: "round_half_even (of_int n) = n"
  by (simp add: round_half_even_def)


lemma ulp_exponent_normal:
  assumes "2 powr of_int k \<le> \<bar>x\<bar>" "\<bar>x\<bar> < 2 powr of_int (k + 1)" "- 1022 \<le> k"
  shows "ulp_exponent x = k - 52"
proof -
  have "(0::real) < 2 powr of_int k" by simp
  with assms(1) have "0 < \<bar>x\<bar>" by linarith
  then have "\<lfloor>log 2 \<bar>x\<bar>\<rfloor> = k"
    using assms(1,2) by (simp add: floor_log_eq_powr_iff)
  with assms(3) show ?thesis by (simp add: ulp_exponent_def)
qed

lemma nearest_double_representable:
  assumes "x = of_int n * 2 powr of_int (ulp_exponent x)"
  shows "nearest_double x = x"
proof (cases "x = 0")
  case True
  then show ?thesis by (simp add: nearest_double_def)
next
  case False
  have "(2::real) powr of_int (ulp_exponent x) \<noteq> 0" by simp
  then have "x / 2 powr of_int (ulp_exponent x) = of_int n"
    using assms by (simp add: field_simps)
  then show ?thesis using False assms by (simp add: nearest_double_def round_half_even_int)
qed



lemma js_plus_representable:
  assumes "x + y = of_int n * 2 powr of_int (ulp_exponent (x + y))" "\<bar>x + y\<bar> < 2 ^ 1024"
  shows "js_plus x y = Fin (x + y)"
  using assms(2) nearest_double_representable[OF assms(1)]
  by (auto simp: js_plus_def js_round_def Let_def)

lemma js_plus_eval:
  assumes "x + y = v" "ulp_exponent v = e" "v = of_int n * 2 powr of_int e" "\<bar>v\<bar> < 2 ^ 1024"
  shows "js_plus x y = Fin v"
  using js_plus_representable[of x y n] assms by simp

lemma js_plus_zero_two: "js_plus 0 2 = Fin 2"
proof (rule js_plus_eval[where e = "- 51" and n = "2 ^ 52"])
  show "ulp_exponent 2 = - 51" using ulp_exponent_normal[of 1 2] by simp
qed (simp_all add: powr_neg_numeral)

lemma double_0001: "nearest_double 0.001 = 4611686018427388 / 2 ^ 62"
proof -
  have u: "ulp_exponent (1 / 1000) = - 62"
    using ulp_exponent_normal[of "- 10" "1 / 1000"] by (simp add: powr_neg_numeral)
  have "nearest_double (1 / 1000) = 4611686018427388 / 2 ^ 62"
    unfolding nearest_double_def u
    by (simp add: powr_neg_numeral round_half_even_def Let_def)
  then show ?thesis by simp
qed

lemma double_0002: "nearest_double 0.002 = 2 * nearest_double 0.001"
proof -
  have u: "ulp_exponent (2 / 1000) = - 61"
    using ulp_exponent_normal[of "- 9" "2 / 1000"] by (simp add: powr_neg_numeral)
  have "nearest_double (2 / 1000) = 4611686018427388 / 2 ^ 61"
    unfolding nearest_double_def u
    by (simp add: powr_neg_numeral round_half_even_def Let_def)
  then have a: "nearest_double 0.002 = 4611686018427388 / 2 ^ 61" by simp
  show ?thesis unfolding a double_0001 by simp
qed

lemma js_plus_0001_first: "js_plus 0 (nearest_double 0.001) = Fin (nearest_double 0.001)"
  unfolding double_0001
proof (rule js_plus_eval[where e = "- 62" and n = 4611686018427388])
  show "ulp_exponent (4611686018427388 / 2 ^ 62) = - 62"
    using ulp_exponent_normal[of "- 10" "4611686018427388 / 2 ^ 62"]
    by (simp add: powr_neg_numeral)
qed (simp_all add: powr_neg_numeral)

lemma js_plus_0001_second:
  "js_plus (nearest_double 0.001) (nearest_double 0.001) = Fin (2 * nearest_double 0.001)"
  unfolding double_0001
proof (rule js_plus_eval[where e = "- 61" and n = 4611686018427388])
  show "ulp_exponent (2 * (4611686018427388 / 2 ^ 62)) = - 61"
    using ulp_exponent_normal[of "- 9" "2 * (4611686018427388 / 2 ^ 62)"]
    by (simp add: powr_neg_numeral)
qed (simp_all add: powr_neg_numeral)

lemma js_plus_0001_third:
  "js_plus (2 * nearest_double 0.001) (nearest_double 0.001) = Fin (3 * nearest_double 0.001)"
  unfolding double_0001
proof (rule js_plus_eval[where e = "- 61" and n = 6917529027641082])
  show "ulp_exponent (3 * (4611686018427388 / 2 ^ 62)) = - 61"
    using ulp_exponent_normal[of "- 9" "3 * (4611686018427388 / 2 ^ 62)"]
    by (simp add: powr_neg_numeral)
qed (simp_all add: powr_neg_numeral)



section \<open>Claims about the estimator and the sentinels\<close>

text \<open>
  C8: with at least 3 towers, \<open>computeHdop\<close> returns 100 when the determinant of the
  normal matrix \<open>G = A\<^sup>T A\<close> is exactly zero, and otherwise the square root of the sum of
  the two diagonal entries \<open>G[1][1] / det\<close> and \<open>G[0][0] / det\<close> of the closed-form inverse.
\<close>

theorem estimate_determinant_branches:
  "3 \<le> length towers \<Longrightarrow>
   computeHdop lat lng towers =
     Inr (let A = map (los_row lat lng) towers;
              g00 = normal_entry A 0 0; g11 = normal_entry A 1 1;
              g01 = normal_entry A 0 1; g10 = normal_entry A 1 0;
              det = js_sub (js_mul g00 g11) (js_mul g01 g10)
          in if det = Fin 0 then Fin 100
             else js_sqrt (js_add (js_div g11 det) (js_div g00 det)))"
  by (rule computeHdop_normal)

theorem estimate_determinant_branches_witness:
  "computeHdop 0 0 [\<lparr>tower_id = 11, tower_lat = 0, tower_lng = 1\<rparr>,
                    \<lparr>tower_id = 12, tower_lat = 1, tower_lng = 0\<rparr>,
                    \<lparr>tower_id = 13, tower_lat = 0, tower_lng = - 1\<rparr>] = Inr (Fin (sqrt (3 / 2)))
   \<and> computeHdop 0 0 [\<lparr>tower_id = 11, tower_lat = 0, tower_lng = 1\<rparr>,
                    \<lparr>tower_id = 12, tower_lat = 0, tower_lng = 2\<rparr>,
                    \<lparr>tower_id = 13, tower_lat = 0, tower_lng = - 1\<rparr>] = Inr (Fin 100)"
  using estimate_determinant_branches
          [of "[\<lparr>tower_id = 11, tower_lat = 0, tower_lng = 1\<rparr>,
                \<lparr>tower_id = 12, tower_lat = 1, tower_lng = 0\<rparr>,
                \<lparr>tower_id = 13, tower_lat = 0, tower_lng = - 1\<rparr>]" 0 0]
        estimate_determinant_branches
          [of "[\<lparr>tower_id = 11, tower_lat = 0, tower_lng = 1\<rparr>,
                \<lparr>tower_id = 12, tower_lat = 0, tower_lng = 2\<rparr>,
                \<lparr>tower_id = 13, tower_lat = 0, tower_lng = - 1\<rparr>]" 0 0]
  by (simp add: normal_entry_def los_row_def js_index_def js_sub_def)

text \<open>
  C9: with at least 3 towers, one of which has exactly the coordinates of the query point,
  the norm of that tower's line-of-sight vector is zero and \<open>computeHdop\<close> returns \<open>NaN\<close>,
  which is neither finite nor the sentinel 100.
\<close>

theorem estimate_coincident_tower_is_NaN:
  "3 \<le> length towers \<Longrightarrow> t \<in> set towers \<Longrightarrow> tower_lat t = lat \<Longrightarrow> tower_lng t = lng \<Longrightarrow>
   js_sqrt (Fin ((tower_lng t - lng) * (tower_lng t - lng)
               + (tower_lat t - lat) * (tower_lat t - lat))) = Fin 0
   \<and> computeHdop lat lng towers = Inr NaN
   \<and> \<not> finite_nonneg NaN \<and> NaN \<noteq> Fin 100"
  by (simp add: computeHdop_coincident)

theorem estimate_coincident_tower_is_NaN_witness:
  "computeHdop 2 3 [\<lparr>tower_id = 11, tower_lat = 1, tower_lng = 1\<rparr>,
                    \<lparr>tower_id = 12, tower_lat = 2, tower_lng = 3\<rparr>,
                    \<lparr>tower_id = 13, tower_lat = 4, tower_lng = 2\<rparr>] = Inr NaN"
  using estimate_coincident_tower_is_NaN
          [of "[\<lparr>tower_id = 11, tower_lat = 1, tower_lng = 1\<rparr>,
                \<lparr>tower_id = 12, tower_lat = 2, tower_lng = 3\<rparr>,
                \<lparr>tower_id = 13, tower_lat = 4, tower_lng = 2\<rparr>]"
              "\<lparr>tower_id = 12, tower_lat = 2, tower_lng = 3\<rparr>" 2 3]
  by simp

text \<open>
  C1, at the input where it fails: the query point (0, 0) with a tower at (0, 0).
  \<open>computeHdop\<close> returns \<open>NaN\<close>, and so does \<open>generateGrid\<close> for the grid point at the
  lower corner of the bounding box.
\<close>

theorem estimate_not_finite_at_tower:
  "computeHdop 0 0 [\<lparr>tower_id = 11, tower_lat = 0, tower_lng = 0\<rparr>,
                    \<lparr>tower_id = 12, tower_lat = 0, tower_lng = 1\<rparr>,
                    \<lparr>tower_id = 13, tower_lat = 1, tower_lng = 0\<rparr>] = Inr NaN
   \<and> generateGrid [\<lparr>tower_id = 11, tower_lat = 0, tower_lng = 0\<rparr>,
                   \<lparr>tower_id = 12, tower_lat = 0, tower_lng = 1\<rparr>,
                   \<lparr>tower_id = 13, tower_lat = 1, tower_lng = 0\<rparr>] (Some 2)
       = Some (Inr [\<lparr>gp_lat = 0, gp_lng = 0, gp_hdop = NaN, gp_res = 2\<rparr>])
   \<and> \<not> finite_nonneg NaN \<and> NaN \<noteq> Fin 100"
proof -
  let ?ts = "[\<lparr>tower_id = 11, tower_lat = 0, tower_lng = 0\<rparr>,
              \<lparr>tower_id = 12, tower_lat = 0, tower_lng = 1\<rparr>,
              \<lparr>tower_id = 13, tower_lat = 1, tower_lng = 0\<rparr>]"
  have h: "computeHdop 0 0 ?ts = Inr NaN"
    by (rule computeHdop_coincident[where t = "\<lparr>tower_id = 11, tower_lat = 0, tower_lng = 0\<rparr>"])
       simp_all
  have b: "bounding_box ?ts = \<lparr>latMin = 0, latMax = 1, lngMin = 0, lngMax = 1\<rparr>"
    by (simp add: bounding_box_def)
  have "generateGrid ?ts (Some 2) = Some (Inr [\<lparr>gp_lat = 0, gp_lng = 0, gp_hdop = NaN, gp_res = 2\<rparr>])"
    by (simp add: generateGrid_def b lat_loop.simps lng_loop.simps h js_plus_zero_two)
  with h show ?thesis by simp
qed

text \<open>
  C2: with fewer than 3 towers \<open>computeHdop\<close> returns 100 at every query point and
  \<open>generateGrid\<close> returns the empty list; with no tower \<open>findTowerClusterCenter\<close> returns
  \<open>null\<close>. Each of them returns: none raises.
\<close>

theorem insufficient_towers_sentinels:
  "length towers < 3 \<Longrightarrow>
   computeHdop lat lng towers = Inr (Fin 100)
   \<and> generateGrid towers res = Some (Inr [])
   \<and> findTowerClusterCenter [] thr = None"
  by (simp add: computeHdop_def generateGrid_def findTowerClusterCenter_def)

theorem insufficient_towers_sentinels_witness:
  "computeHdop 5 7 [\<lparr>tower_id = 11, tower_lat = 5, tower_lng = 7\<rparr>,
                    \<lparr>tower_id = 12, tower_lat = 6, tower_lng = 8\<rparr>] = Inr (Fin 100)
   \<and> generateGrid [\<lparr>tower_id = 11, tower_lat = 5, tower_lng = 7\<rparr>,
                   \<lparr>tower_id = 12, tower_lat = 6, tower_lng = 8\<rparr>] (Some 0.001) = Some (Inr [])
   \<and> findTowerClusterCenter [] None = None"
  using insufficient_towers_sentinels
          [of "[\<lparr>tower_id = 11, tower_lat = 5, tower_lng = 7\<rparr>,
                \<lparr>tower_id = 12, tower_lat = 6, tower_lng = 8\<rparr>]" 5 7 "Some 0.001" None]
  by simp

section \<open>Claims about the grid builder and the cluster locator\<close>

subsection \<open>Bounding box\<close>

lemma bounding_fold:
  fixes f :: "bounds \<Rightarrow> tower \<Rightarrow> bounds"
  defines "f \<equiv> (\<lambda>b t. \<lparr>latMin = min (latMin b) (tower_lat t),
                     latMax = max (latMax b) (tower_lat t),
                     lngMin = min (lngMin b) (tower_lng t),
                     lngMax = max (lngMax b) (tower_lng t)\<rparr>)"
  shows "latMin (foldl f b ts) \<le> latMin b \<and> latMax b \<le> latMax (foldl f b ts)
       \<and> lngMin (foldl f b ts) \<le> lngMin b \<and> lngMax b \<le> lngMax (foldl f b ts)
       \<and> (\<forall>t\<in>set ts. latMin (foldl f b ts) \<le> tower_lat t \<and> tower_lat t \<le> latMax (foldl f b ts)
                    \<and> lngMin (foldl f b ts) \<le> tower_lng t \<and> tower_lng t \<le> lngMax (foldl f b ts))"
proof (induction ts arbitrary: b)
  case Nil
  then show ?case by simp
next
  case (Cons x xs)
  from Cons.IH[of "f b x"] show ?case
    by (auto simp: f_def)
qed

lemma bounding_box_contains:
  assumes "t \<in> set towers"
  shows "latMin (bounding_box towers) \<le> tower_lat t \<and> tower_lat t \<le> latMax (bounding_box towers)
       \<and> lngMin (bounding_box towers) \<le> tower_lng t \<and> tower_lng t \<le> lngMax (bounding_box towers)"
  using bounding_fold[of "\<lparr>latMin = 90, latMax = - 90, lngMin = 180, lngMax = - 180\<rparr>" towers] assms
  unfolding bounding_box_def by blast

text \<open>
  C6: the bounding box that \<open>generateGrid\<close> computes contains every tower of the list:
  \<open>latMin \<le> lat \<le> latMax\<close> and \<open>lngMin \<le> lng \<le> lngMax\<close>.
\<close>

theorem bounding_box_contains_towers:
  "t \<in> set towers \<Longrightarrow>
   latMin (bounding_box towers) \<le> tower_lat t \<and> tower_lat t \<le> latMax (bounding_box towers)
   \<and> lngMin (bounding_box towers) \<le> tower_lng t \<and> tower_lng t \<le> lngMax (bounding_box towers)"
  by (rule bounding_box_contains)

theorem bounding_box_contains_towers_witness:
  "bounding_box [\<lparr>tower_id = 21, tower_lat = 10, tower_lng = 20\<rparr>,
                 \<lparr>tower_id = 22, tower_lat = - 5, tower_lng = 30\<rparr>]
     = \<lparr>latMin = - 5, latMax = 10, lngMin = 20, lngMax = 30\<rparr>
   \<and> latMin (bounding_box [\<lparr>tower_id = 21, tower_lat = 10, tower_lng = 20\<rparr>,
                 \<lparr>tower_id = 22, tower_lat = - 5, tower_lng = 30\<rparr>]) \<le> 10"
  using bounding_box_contains_towers
          [of "\<lparr>tower_id = 21, tower_lat = 10, tower_lng = 20\<rparr>"
              "[\<lparr>tower_id = 21, tower_lat = 10, tower_lng = 20\<rparr>,
                \<lparr>tower_id = 22, tower_lat = - 5, tower_lng = 30\<rparr>]"]
  by (simp add: bounding_box_def)

subsection \<open>The distance function at particular points\<close>

lemma haversine_zero:
  "haversine 0 0 0 lon2 = Fin 0"
  by (simp add: haversine_def toRad_def atan2_def earthRadiusKm_def)

lemma haversine_pole:
  "haversine 0 lon1 90 lon2 = Fin (6371 * pi / 2)"
proof -
  have s: "(sin (pi / 4))\<^sup>2 = 1 / 2"
    by (simp add: sin_45 power_divide)
  have a: "(sin (toRad (90 - 0) / 2))\<^sup>2
           + cos (toRad 0) * cos (toRad 90) * (sin (toRad (90 - lon1) / 2))\<^sup>2 = 1 / 2"
    by (simp add: toRad_def s)
  have q: "0 < sqrt (1 / 2 :: real)" by simp
  have "atan2 (sqrt (1 / 2)) (sqrt (1 / 2)) = pi / 4"
    using q by (simp add: atan2_def arctan_one del: real_sqrt_gt_0_iff)
  then show ?thesis
    unfolding haversine_def Let_def a
    by (simp add: earthRadiusKm_def)
qed

lemma haversineDistanceKm_one_degree:
  "haversineDistanceKm 0 0 0 1 = Fin (6371 * pi / 180)"
proof -
  let ?y = "pi / 360"
  have y: "0 < ?y" "?y < pi / 2" by simp_all
  have sy: "0 < sin ?y" using y by (intro sin_gt_zero) simp_all
  have cy: "0 < cos ?y" using y by (intro cos_gt_zero_pi) simp_all
  have c2: "1 - (sin ?y)\<^sup>2 = (cos ?y)\<^sup>2"
    using sin_cos_squared_add[of ?y] by linarith
  have a: "(sin (toRad (0 - 0) / 2))\<^sup>2
           + cos (toRad 0) * cos (toRad 0) * (sin (toRad (1 - 0) / 2))\<^sup>2 = (sin ?y)\<^sup>2"
    by (simp add: toRad_def)
  have r1: "js_sqrt (Fin ((sin ?y)\<^sup>2)) = Fin (sin ?y)" using sy by simp
  have r2: "js_sqrt (Fin ((cos ?y)\<^sup>2)) = Fin (cos ?y)" using cy by simp
  have "atan2 (sin ?y) (cos ?y) = arctan (tan ?y)"
    using cy by (simp add: atan2_def tan_def)
  also have "\<dots> = ?y" using y by (intro arctan_tan) simp_all
  finally have t: "atan2 (sin ?y) (cos ?y) = ?y" .
  show ?thesis
    unfolding haversineDistanceKm_def Let_def a c2 r1 r2
    by (simp add: t earthRadiusKm_def)
qed

text \<open>
  C3, at the input where it fails: the points (0, 0) and (0, 1), one degree of longitude
  apart on the equator. The helper of the source returns 0 km; the haversine formula
  gives \<open>6371 * pi / 180\<close> km (about 111 km).
\<close>

theorem haversine_ignores_longitude:
  "haversine 0 0 0 1 = Fin 0
   \<and> haversineDistanceKm 0 0 0 1 = Fin (6371 * pi / 180)
   \<and> haversine 0 0 0 1 \<noteq> haversineDistanceKm 0 0 0 1"
proof -
  have "(6371 * pi / 180 :: real) \<noteq> 0" by simp
  then show ?thesis
    by (simp add: haversine_zero haversineDistanceKm_one_degree)
qed

subsection \<open>Grouping\<close>

lemma join_group_mset:
  "join_group d base gs = Some gs' \<Longrightarrow>
   mset (concat gs') = add_mset base (mset (concat gs)) \<and> ([] \<notin> set gs \<longrightarrow> [] \<notin> set gs')"
proof (induction gs arbitrary: gs')
  case Nil
  then show ?case by simp
next
  case (Cons g gs)
  show ?case
  proof (cases "list_ex (within_threshold d base) g")
    case True
    with Cons.prems show ?thesis by auto
  next
    case False
    with Cons.prems obtain r where r: "join_group d base gs = Some r" and g': "gs' = g # r"
      by auto
    from Cons.IH[OF r] g' show ?thesis by auto
  qed
qed

lemma place_tower_mset:
  "mset (concat (place_tower d gs base)) = add_mset base (mset (concat gs))
   \<and> ([] \<notin> set gs \<longrightarrow> [] \<notin> set (place_tower d gs base))"
  by (cases "join_group d base gs") (auto simp: place_tower_def dest: join_group_mset)

lemma group_fold_mset:
  "mset (concat (foldl (place_tower d) gs ts)) = mset (concat gs) + mset ts
   \<and> ([] \<notin> set gs \<longrightarrow> [] \<notin> set (foldl (place_tower d) gs ts))"
proof (induction ts arbitrary: gs)
  case Nil
  then show ?case by simp
next
  case (Cons t ts)
  from Cons.IH[of "place_tower d gs t"] place_tower_mset[of d gs t]
  show ?case by simp
qed

text \<open>
  C7: after the grouping loop of \<open>findTowerClusterCenter\<close> the groups, taken together,
  hold exactly the occurrences of the input towers (each occurrence in one group), and
  no group is empty.
\<close>

theorem groups_partition_towers:
  "mset (concat (group_towers distanceThreshold towers)) = mset towers
   \<and> [] \<notin> set (group_towers distanceThreshold towers)"
  using group_fold_mset[of distanceThreshold "[]" towers]
  by (simp add: group_towers_def)

theorem groups_partition_towers_witness:
  "group_towers 0.3 [\<lparr>tower_id = 61, tower_lat = 0, tower_lng = 0\<rparr>,
                     \<lparr>tower_id = 62, tower_lat = 0, tower_lng = 5\<rparr>,
                     \<lparr>tower_id = 63, tower_lat = 90, tower_lng = 0\<rparr>]
     = [[\<lparr>tower_id = 61, tower_lat = 0, tower_lng = 0\<rparr>,
         \<lparr>tower_id = 62, tower_lat = 0, tower_lng = 5\<rparr>],
        [\<lparr>tower_id = 63, tower_lat = 90, tower_lng = 0\<rparr>]]
   \<and> mset (concat (group_towers 0.3 [\<lparr>tower_id = 61, tower_lat = 0, tower_lng = 0\<rparr>,
                     \<lparr>tower_id = 62, tower_lat = 0, tower_lng = 5\<rparr>,
                     \<lparr>tower_id = 63, tower_lat = 90, tower_lng = 0\<rparr>]))
     = mset [\<lparr>tower_id = 61, tower_lat = 0, tower_lng = 0\<rparr>,
             \<lparr>tower_id = 62, tower_lat = 0, tower_lng = 5\<rparr>,
             \<lparr>tower_id = 63, tower_lat = 90, tower_lng = 0\<rparr>]"
proof -
  have far: "\<not> (6371 * pi / 2 < 0.3)" using pi_ge_two by simp
  have "group_towers 0.3 [\<lparr>tower_id = 61, tower_lat = 0, tower_lng = 0\<rparr>,
                     \<lparr>tower_id = 62, tower_lat = 0, tower_lng = 5\<rparr>,
                     \<lparr>tower_id = 63, tower_lat = 90, tower_lng = 0\<rparr>]
     = [[\<lparr>tower_id = 61, tower_lat = 0, tower_lng = 0\<rparr>,
         \<lparr>tower_id = 62, tower_lat = 0, tower_lng = 5\<rparr>],
        [\<lparr>tower_id = 63, tower_lat = 90, tower_lng = 0\<rparr>]]"
    using far
    by (simp add: group_towers_def place_tower_def within_threshold_def
                  haversine_zero haversine_pole)
  then show ?thesis
    using groups_partition_towers
            [of "0.3" "[\<lparr>tower_id = 61, tower_lat = 0, tower_lng = 0\<rparr>,
                     \<lparr>tower_id = 62, tower_lat = 0, tower_lng = 5\<rparr>,
                     \<lparr>tower_id = 63, tower_lat = 90, tower_lng = 0\<rparr>]"]
    by simp
qed

subsection \<open>The largest group and its centroid\<close>

lemma largest_group_snoc:
  "largest_group (gs @ [g]) = (if length (largest_group gs) > length g then largest_group gs else g)"
  by (simp add: largest_group_def)

lemma largest_group_last_maximal:
  "gs \<noteq> [] \<Longrightarrow>
   \<exists>k<length gs. largest_group gs = gs ! k
      \<and> (\<forall>i<length gs. length (gs ! i) \<le> length (gs ! k))
      \<and> (\<forall>i<length gs. k < i \<longrightarrow> length (gs ! i) < length (gs ! k))"
proof (induction gs rule: rev_induct)
  case Nil
  then show ?case by simp
next
  case (snoc g gs)
  show ?case
  proof (cases "gs = []")
    case True
    then show ?thesis by (simp add: largest_group_def)
  next
    case False
    from snoc.IH[OF False] obtain k where k: "k < length gs" "largest_group gs = gs ! k"
      "\<forall>i<length gs. length (gs ! i) \<le> length (gs ! k)"
      "\<forall>i<length gs. k < i \<longrightarrow> length (gs ! i) < length (gs ! k)"
      by blast
    show ?thesis
    proof (cases "length (gs ! k) > length g")
      case True
      have "largest_group (gs @ [g]) = (gs @ [g]) ! k"
        using True k(1,2) by (simp add: largest_group_snoc nth_append)
      moreover have "\<forall>i<length (gs @ [g]). length ((gs @ [g]) ! i) \<le> length ((gs @ [g]) ! k)"
        using True k(1,3) by (auto simp: nth_append less_Suc_eq)
      moreover have "\<forall>i<length (gs @ [g]). k < i \<longrightarrow> length ((gs @ [g]) ! i) < length ((gs @ [g]) ! k)"
        using True k(1,4) by (auto simp: nth_append less_Suc_eq)
      ultimately show ?thesis using k(1) by (intro exI[of _ k]) simp
    next
      case False
      have "largest_group (gs @ [g]) = (gs @ [g]) ! length gs"
        using False k(2) by (simp add: largest_group_snoc)
      moreover have "\<forall>i<length (gs @ [g]). length ((gs @ [g]) ! i) \<le> length ((gs @ [g]) ! length gs)"
      proof (intro allI impI)
        fix i assume "i < length (gs @ [g])"
        then consider "i < length gs" | "i = length gs" by force
        then show "length ((gs @ [g]) ! i) \<le> length ((gs @ [g]) ! length gs)"
        proof cases
          case 1
          with k(3) have "length (gs ! i) \<le> length (gs ! k)" by blast
          with False 1 show ?thesis by (simp add: nth_append)
        next
          case 2
          then show ?thesis by simp
        qed
      qed
      ultimately show ?thesis by (intro exI[of _ "length gs"]) simp
    qed
  qed
qed

lemma foldl_plus_sum_list:
  "foldl (\<lambda>s t. s + f t) (a :: real) xs = a + sum_list (map f xs)"
  by (induction xs arbitrary: a) simp_all

lemma group_towers_nonempty:
  "towers \<noteq> [] \<Longrightarrow> group_towers d towers \<noteq> []"
proof
  assume t: "towers \<noteq> []" and "group_towers d towers = []"
  then have "mset (concat (group_towers d towers)) = {#}" by simp
  with group_fold_mset[of d "[]" towers] t show False
    by (simp add: group_towers_def)
qed

lemma group_towers_no_empty_group:
  "[] \<notin> set (group_towers d towers)"
  using group_fold_mset[of d "[]" towers] by (simp add: group_towers_def)

lemma findTowerClusterCenter_mean:
  assumes "towers \<noteq> []"
  shows "largest_group (group_towers d towers) \<noteq> []
       \<and> findTowerClusterCenter towers (Some d) =
         Some (Fin (sum_list (map tower_lat (largest_group (group_towers d towers)))
                     / real (length (largest_group (group_towers d towers)))),
               Fin (sum_list (map tower_lng (largest_group (group_towers d towers)))
                     / real (length (largest_group (group_towers d towers)))))"
proof -
  let ?gs = "group_towers d towers"
  from largest_group_last_maximal[OF group_towers_nonempty[OF assms, of d]]
  obtain k where "k < length ?gs" "largest_group ?gs = ?gs ! k" by blast
  then have "largest_group ?gs \<in> set ?gs" by simp
  with group_towers_no_empty_group[of d towers] have ne: "largest_group ?gs \<noteq> []" by metis
  then have "real (length (largest_group ?gs)) \<noteq> 0" by simp
  with assms ne show ?thesis
    by (simp add: findTowerClusterCenter_def Let_def foldl_plus_sum_list)
qed

lemma group_two_towers:
  "group_towers d [t1, t2] = (if within_threshold d t2 t1 then [[t1, t2]] else [[t1], [t2]])"
  by (simp add: group_towers_def place_tower_def)

lemma locate_two_towers:
  "findTowerClusterCenter [t1, t2] (Some d) =
     Some (if within_threshold d t2 t1
           then (Fin ((tower_lat t1 + tower_lat t2) / 2), Fin ((tower_lng t1 + tower_lng t2) / 2))
           else (Fin (tower_lat t2), Fin (tower_lng t2)))"
  by (simp add: findTowerClusterCenter_def group_two_towers largest_group_def)

text \<open>
  C4, as the code has it: \<open>findTowerClusterCenter\<close> selects a group \<open>k\<close> of maximal size,
  and among the groups of that size the last one in creation order (every later group is
  strictly smaller); it returns the arithmetic means of \<open>lat\<close> and of \<open>lng\<close> over that
  group. For two towers it returns their midpoint when the distance test of the source
  puts the second tower into the group of the first, and the coordinates of the second
  tower otherwise.
\<close>

theorem locate_last_largest_group:
  "towers \<noteq> [] \<Longrightarrow>
   (\<exists>k<length (group_towers d towers).
       largest_group (group_towers d towers) = group_towers d towers ! k
     \<and> (\<forall>i<length (group_towers d towers).
           length (group_towers d towers ! i) \<le> length (group_towers d towers ! k))
     \<and> (\<forall>i<length (group_towers d towers).
           k < i \<longrightarrow> length (group_towers d towers ! i) < length (group_towers d towers ! k))
     \<and> group_towers d towers ! k \<noteq> []
     \<and> findTowerClusterCenter towers (Some d) =
         Some (Fin (sum_list (map tower_lat (group_towers d towers ! k))
                     / real (length (group_towers d towers ! k))),
               Fin (sum_list (map tower_lng (group_towers d towers ! k))
                     / real (length (group_towers d towers ! k)))))
   \<and> findTowerClusterCenter [t1, t2] (Some d) =
       Some (if within_threshold d t2 t1
             then (Fin ((tower_lat t1 + tower_lat t2) / 2), Fin ((tower_lng t1 + tower_lng t2) / 2))
             else (Fin (tower_lat t2), Fin (tower_lng t2)))"
proof -
  assume t: "towers \<noteq> []"
  let ?gs = "group_towers d towers"
  from largest_group_last_maximal[OF group_towers_nonempty[OF t, of d]]
  obtain k where k: "k < length ?gs" "largest_group ?gs = ?gs ! k"
      "\<forall>i<length ?gs. length (?gs ! i) \<le> length (?gs ! k)"
      "\<forall>i<length ?gs. k < i \<longrightarrow> length (?gs ! i) < length (?gs ! k)"
    by blast
  from findTowerClusterCenter_mean[OF t, of d] k(2)
  have m: "?gs ! k \<noteq> []"
    "findTowerClusterCenter towers (Some d) =
         Some (Fin (sum_list (map tower_lat (?gs ! k)) / real (length (?gs ! k))),
               Fin (sum_list (map tower_lng (?gs ! k)) / real (length (?gs ! k))))"
    by simp_all
  from k m have "\<exists>k<length ?gs.
       largest_group ?gs = ?gs ! k
     \<and> (\<forall>i<length ?gs. length (?gs ! i) \<le> length (?gs ! k))
     \<and> (\<forall>i<length ?gs. k < i \<longrightarrow> length (?gs ! i) < length (?gs ! k))
     \<and> ?gs ! k \<noteq> []
     \<and> findTowerClusterCenter towers (Some d) =
         Some (Fin (sum_list (map tower_lat (?gs ! k)) / real (length (?gs ! k))),
               Fin (sum_list (map tower_lng (?gs ! k)) / real (length (?gs ! k))))"
    by blast
  then show ?thesis using locate_two_towers[of t1 t2 d] by blast
qed

lemma far_towers_not_grouped:
  "\<not> within_threshold 0.3 \<lparr>tower_id = 32, tower_lat = 90, tower_lng = 0\<rparr>
                          \<lparr>tower_id = 31, tower_lat = 0, tower_lng = 0\<rparr>"
proof -
  have "\<not> (6371 * pi / 2 < 0.3)" using pi_ge_two by simp
  then show ?thesis by (simp add: within_threshold_def haversine_pole)
qed

lemma near_towers_grouped:
  "within_threshold 0.3 \<lparr>tower_id = 34, tower_lat = 0, tower_lng = 0.0009\<rparr>
                        \<lparr>tower_id = 33, tower_lat = 0, tower_lng = 0\<rparr>"
  by (simp add: within_threshold_def haversine_zero)

theorem locate_last_largest_group_witness:
  "findTowerClusterCenter [\<lparr>tower_id = 33, tower_lat = 0, tower_lng = 0\<rparr>,
                           \<lparr>tower_id = 34, tower_lat = 0, tower_lng = 0.0009\<rparr>] (Some 0.3)
     = Some (Fin 0, Fin 0.00045)
   \<and> findTowerClusterCenter [\<lparr>tower_id = 31, tower_lat = 0, tower_lng = 0\<rparr>,
                             \<lparr>tower_id = 32, tower_lat = 90, tower_lng = 0\<rparr>] (Some 0.3)
     = Some (Fin 90, Fin 0)"
  using locate_last_largest_group
          [of "[\<lparr>tower_id = 33, tower_lat = 0, tower_lng = 0\<rparr>]" "0.3"
              "\<lparr>tower_id = 33, tower_lat = 0, tower_lng = 0\<rparr>"
              "\<lparr>tower_id = 34, tower_lat = 0, tower_lng = 0.0009\<rparr>"]
        locate_last_largest_group
          [of "[\<lparr>tower_id = 33, tower_lat = 0, tower_lng = 0\<rparr>]" "0.3"
              "\<lparr>tower_id = 31, tower_lat = 0, tower_lng = 0\<rparr>"
              "\<lparr>tower_id = 32, tower_lat = 90, tower_lng = 0\<rparr>"]
        far_towers_not_grouped near_towers_grouped
  by simp

text \<open>
  C4 as stated fails at two towers whose groups tie: the towers at (0, 0) and (90, 0)
  form two groups of one tower each, and the result is the second tower, not the first.
\<close>

theorem locate_tie_first_group_counterexample:
  "group_towers 0.3 [\<lparr>tower_id = 31, tower_lat = 0, tower_lng = 0\<rparr>,
                     \<lparr>tower_id = 32, tower_lat = 90, tower_lng = 0\<rparr>]
     = [[\<lparr>tower_id = 31, tower_lat = 0, tower_lng = 0\<rparr>],
        [\<lparr>tower_id = 32, tower_lat = 90, tower_lng = 0\<rparr>]]
   \<and> findTowerClusterCenter [\<lparr>tower_id = 31, tower_lat = 0, tower_lng = 0\<rparr>,
                             \<lparr>tower_id = 32, tower_lat = 90, tower_lng = 0\<rparr>] (Some 0.3)
     = Some (Fin 90, Fin 0)
   \<and> findTowerClusterCenter [\<lparr>tower_id = 31, tower_lat = 0, tower_lng = 0\<rparr>,
                             \<lparr>tower_id = 32, tower_lat = 90, tower_lng = 0\<rparr>] (Some 0.3)
     \<noteq> Some (Fin 0, Fin 0)"
  using far_towers_not_grouped
  by (simp add: locate_two_towers group_two_towers)

subsection \<open>The grid loops\<close>

lemma computeHdop_returns: "\<exists>h. computeHdop lat lng towers = Inr h"
proof (cases "length towers < 3")
  case True
  then show ?thesis by (simp add: computeHdop_def)
next
  case False
  then have "3 \<le> length towers" by simp
  from computeHdop_normal[OF this] show ?thesis by blast
qed


lemma computeHdop_projr:
  "computeHdop lat lng towers = Inr (projr (computeHdop lat lng towers))"
proof -
  obtain h where "computeHdop lat lng towers = Inr h" using computeHdop_returns by blast
  then show ?thesis by simp
qed

lemma lng_loop_unfold:
  "lng_loop towers res b lat lng results =
     (if lng \<le> lngMax b
      then (case js_plus lng res of
              Fin lng' \<Rightarrow>
                lng_loop towers res b lat lng'
                  (results @ [\<lparr>gp_lat = lat, gp_lng = lng,
                                gp_hdop = projr (computeHdop lat lng towers), gp_res = res\<rparr>])
            | PInf \<Rightarrow>
                Some (Inr (results @ [\<lparr>gp_lat = lat, gp_lng = lng,
                                gp_hdop = projr (computeHdop lat lng towers), gp_res = res\<rparr>]))
            | NInf \<Rightarrow> None
            | NaN \<Rightarrow>
                Some (Inr (results @ [\<lparr>gp_lat = lat, gp_lng = lng,
                                gp_hdop = projr (computeHdop lat lng towers), gp_res = res\<rparr>])))
      else Some (Inr results))"
proof -
  obtain h where "computeHdop lat lng towers = Inr h"
    using computeHdop_returns by blast
  then show ?thesis by (subst lng_loop.simps) (simp split: jsnum.splits)
qed









lemma lng_loop_three:
  assumes "0 < r" and "lngMax b = 2 * r"
    and "js_plus 0 r = Fin r" and "js_plus r r = Fin (2 * r)" and "js_plus (2 * r) r = Fin (3 * r)"
  shows "lng_loop towers r b lat 0 results =
     Some (Inr (results @ map (\<lambda>lng. \<lparr>gp_lat = lat, gp_lng = lng,
                           gp_hdop = projr (computeHdop lat lng towers), gp_res = r\<rparr>)
                          [0, r, 2 * r]))"
proof -
  have "\<not> 3 * r \<le> lngMax b" using assms(1,2) by simp
  then have stop: "\<And>rs. lng_loop towers r b lat (3 * r) rs = Some (Inr rs)"
    by (subst lng_loop.simps) simp
  have "\<And>rs. lng_loop towers r b lat (2 * r) rs =
       Some (Inr (rs @ [\<lparr>gp_lat = lat, gp_lng = 2 * r,
                           gp_hdop = projr (computeHdop lat (2 * r) towers), gp_res = r\<rparr>]))"
    by (subst lng_loop_unfold) (simp add: assms(2,5) stop)
  then have "\<And>rs. lng_loop towers r b lat r rs =
       Some (Inr (rs @ [\<lparr>gp_lat = lat, gp_lng = r,
                           gp_hdop = projr (computeHdop lat r towers), gp_res = r\<rparr>,
                        \<lparr>gp_lat = lat, gp_lng = 2 * r,
                           gp_hdop = projr (computeHdop lat (2 * r) towers), gp_res = r\<rparr>]))"
    using assms(1) by (subst lng_loop_unfold) (simp add: assms(2,4))
  then show ?thesis
    using assms(1) by (subst lng_loop_unfold) (simp add: assms(2,3))
qed

lemma lat_loop_three:
  assumes "0 < r" and "latMax b = 2 * r" and "lngMin b = 0" and "lngMax b = 2 * r"
    and "js_plus 0 r = Fin r" and "js_plus r r = Fin (2 * r)" and "js_plus (2 * r) r = Fin (3 * r)"
  shows "lat_loop towers r b 0 [] =
     Some (Inr (concat (map (\<lambda>lat. map (\<lambda>lng. \<lparr>gp_lat = lat, gp_lng = lng,
                           gp_hdop = projr (computeHdop lat lng towers), gp_res = r\<rparr>)
                          [0, r, 2 * r]) [0, r, 2 * r])))"
proof -
  note row = lng_loop_three[OF assms(1) assms(4) assms(5) assms(6) assms(7), of towers]
  have "\<not> 3 * r \<le> latMax b" using assms(1,2) by simp
  then have stop: "\<And>rs. lat_loop towers r b (3 * r) rs = Some (Inr rs)"
    by (subst lat_loop.simps) simp
  have l2: "\<And>rs. lat_loop towers r b (2 * r) rs =
       Some (Inr (rs @ map (\<lambda>lng. \<lparr>gp_lat = 2 * r, gp_lng = lng,
                           gp_hdop = projr (computeHdop (2 * r) lng towers), gp_res = r\<rparr>)
                          [0, r, 2 * r]))"
    by (subst lat_loop.simps) (simp add: assms(2,3,7) row stop)
  have l1: "\<And>rs. lat_loop towers r b r rs =
       Some (Inr (rs @ map (\<lambda>lng. \<lparr>gp_lat = r, gp_lng = lng,
                           gp_hdop = projr (computeHdop r lng towers), gp_res = r\<rparr>)
                          [0, r, 2 * r]
                     @ map (\<lambda>lng. \<lparr>gp_lat = 2 * r, gp_lng = lng,
                           gp_hdop = projr (computeHdop (2 * r) lng towers), gp_res = r\<rparr>)
                          [0, r, 2 * r]))"
    using assms(1) by (subst lat_loop.simps) (simp add: assms(2,3,6) row l2)
  show ?thesis
    using assms(1) by (subst lat_loop.simps) (simp add: assms(2,3,5) row l1)
qed

lemma build_three_generic:
  assumes "3 \<le> length towers"
    and "bounding_box towers = \<lparr>latMin = 0, latMax = 2 * r, lngMin = 0, lngMax = 2 * r\<rparr>"
    and "0 < r"
    and "js_plus 0 r = Fin r" and "js_plus r r = Fin (2 * r)" and "js_plus (2 * r) r = Fin (3 * r)"
  shows "\<exists>ps. generateGrid towers (Some r) = Some (Inr ps)
      \<and> map (\<lambda>p. (gp_lat p, gp_lng p, gp_res p)) ps =
          [(0, 0, r), (0, r, r), (0, 2 * r, r),
           (r, 0, r), (r, r, r), (r, 2 * r, r),
           (2 * r, 0, r), (2 * r, r, r), (2 * r, 2 * r, r)]
      \<and> (\<forall>p\<in>set ps. computeHdop (gp_lat p) (gp_lng p) towers = Inr (gp_hdop p))"
proof -
  let ?ps = "concat (map (\<lambda>lat. map (\<lambda>lng. \<lparr>gp_lat = lat, gp_lng = lng,
                           gp_hdop = projr (computeHdop lat lng towers), gp_res = r\<rparr>)
                          [0, r, 2 * r]) [0, r, 2 * r])"
  have "lat_loop towers r (bounding_box towers) 0 [] = Some (Inr ?ps)"
    by (rule lat_loop_three[OF assms(3) _ _ _ assms(4) assms(5) assms(6)])
       (simp_all add: assms(2))
  then have g: "generateGrid towers (Some r) = Some (Inr ?ps)"
    using assms(1) by (simp add: generateGrid_def Let_def assms(2))
  have m: "map (\<lambda>p. (gp_lat p, gp_lng p, gp_res p)) ?ps =
          [(0, 0, r), (0, r, r), (0, 2 * r, r),
           (r, 0, r), (r, r, r), (r, 2 * r, r),
           (2 * r, 0, r), (2 * r, r, r), (2 * r, 2 * r, r)]"
    by simp
  have c: "\<forall>p\<in>set ?ps. computeHdop (gp_lat p) (gp_lng p) towers = Inr (gp_hdop p)"
    using computeHdop_projr[of _ _ towers] by auto
  show ?thesis
  proof (rule exI[of _ ?ps], intro conjI)
    show "generateGrid towers (Some r) = Some (Inr ?ps)" by (rule g)
    show "map (\<lambda>p. (gp_lat p, gp_lng p, gp_res p)) ?ps =
          [(0, 0, r), (0, r, r), (0, 2 * r, r),
           (r, 0, r), (r, r, r), (r, 2 * r, r),
           (2 * r, 0, r), (2 * r, r, r), (2 * r, 2 * r, r)]" by (rule m)
    show "\<forall>p\<in>set ?ps. computeHdop (gp_lat p) (gp_lng p) towers = Inr (gp_hdop p)" by (rule c)
  qed
qed

text \<open>
  C5: for at least 3 towers whose bounding box is exactly [0, 0] - [0.002, 0.002],
  \<open>generateGrid\<close> with resolution 0.001 returns 9 grid points, the pairs of
  0, 0.001 and 0.002 in row order, each with \<open>res = 0.001\<close> and with the value of
  \<open>computeHdop\<close> at its coordinates. Here 0.001 and 0.002 are the JavaScript numbers,
  the doubles nearest to the decimals; the steps \<open>0 + 0.001\<close> and \<open>0.001 + 0.001\<close> are
  exact, and \<open>0.002 + 0.001\<close> is beyond 0.002.
\<close>

theorem build_three_by_three:
  "3 \<le> length towers \<Longrightarrow>
   bounding_box towers = \<lparr>latMin = 0, latMax = nearest_double 0.002,
                           lngMin = 0, lngMax = nearest_double 0.002\<rparr> \<Longrightarrow>
   \<exists>ps. generateGrid towers (Some (nearest_double 0.001)) = Some (Inr ps)
      \<and> map (\<lambda>p. (gp_lat p, gp_lng p, gp_res p)) ps =
          [(0, 0, nearest_double 0.001),
           (0, nearest_double 0.001, nearest_double 0.001),
           (0, nearest_double 0.002, nearest_double 0.001),
           (nearest_double 0.001, 0, nearest_double 0.001),
           (nearest_double 0.001, nearest_double 0.001, nearest_double 0.001),
           (nearest_double 0.001, nearest_double 0.002, nearest_double 0.001),
           (nearest_double 0.002, 0, nearest_double 0.001),
           (nearest_double 0.002, nearest_double 0.001, nearest_double 0.001),
           (nearest_double 0.002, nearest_double 0.002, nearest_double 0.001)]
      \<and> (\<forall>p\<in>set ps. computeHdop (gp_lat p) (gp_lng p) towers = Inr (gp_hdop p))"
proof -
  assume len: "3 \<le> length towers"
    and b: "bounding_box towers = \<lparr>latMin = 0, latMax = nearest_double 0.002,
                           lngMin = 0, lngMax = nearest_double 0.002\<rparr>"
  have pos: "0 < nearest_double 0.001" unfolding double_0001 by simp
  from b have b': "bounding_box towers =
      \<lparr>latMin = 0, latMax = 2 * nearest_double 0.001,
        lngMin = 0, lngMax = 2 * nearest_double 0.001\<rparr>"
    unfolding double_0002 .
  from build_three_generic[OF len b' pos js_plus_0001_first js_plus_0001_second js_plus_0001_third]
  show ?thesis unfolding double_0002 .
qed

theorem build_three_by_three_witness:
  "\<exists>ps. generateGrid [\<lparr>tower_id = 51, tower_lat = 0, tower_lng = 0\<rparr>,
                       \<lparr>tower_id = 52, tower_lat = 0, tower_lng = nearest_double 0.002\<rparr>,
                       \<lparr>tower_id = 53, tower_lat = nearest_double 0.002,
                          tower_lng = nearest_double 0.001\<rparr>]
                      (Some (nearest_double 0.001)) = Some (Inr ps)
      \<and> map (\<lambda>p. (gp_lat p, gp_lng p)) ps =
          [(0, 0), (0, nearest_double 0.001), (0, nearest_double 0.002),
           (nearest_double 0.001, 0), (nearest_double 0.001, nearest_double 0.001),
           (nearest_double 0.001, nearest_double 0.002),
           (nearest_double 0.002, 0), (nearest_double 0.002, nearest_double 0.001),
           (nearest_double 0.002, nearest_double 0.002)]
      \<and> nearest_double 0.001 = 4611686018427388 / 2 ^ 62
      \<and> nearest_double 0.002 = 4611686018427388 / 2 ^ 61"
proof -
  let ?ts = "[\<lparr>tower_id = 51, tower_lat = 0, tower_lng = 0\<rparr>,
              \<lparr>tower_id = 52, tower_lat = 0, tower_lng = nearest_double 0.002\<rparr>,
              \<lparr>tower_id = 53, tower_lat = nearest_double 0.002,
                 tower_lng = nearest_double 0.001\<rparr>]"
  have b: "bounding_box ?ts = \<lparr>latMin = 0, latMax = nearest_double 0.002,
                           lngMin = 0, lngMax = nearest_double 0.002\<rparr>"
    unfolding double_0002 double_0001 by (simp add: bounding_box_def)
  have l: "3 \<le> length ?ts" by simp
  from build_three_by_three[OF l b] obtain ps where
    g: "generateGrid ?ts (Some (nearest_double 0.001)) = Some (Inr ps)"
    and m: "map (\<lambda>p. (gp_lat p, gp_lng p, gp_res p)) ps =
          [(0, 0, nearest_double 0.001),
           (0, nearest_double 0.001, nearest_double 0.001),
           (0, nearest_double 0.002, nearest_double 0.001),
           (nearest_double 0.001, 0, nearest_double 0.001),
           (nearest_double 0.001, nearest_double 0.001, nearest_double 0.001),
           (nearest_double 0.001, nearest_double 0.002, nearest_double 0.001),
           (nearest_double 0.002, 0, nearest_double 0.001),
           (nearest_double 0.002, nearest_double 0.001, nearest_double 0.001),
           (nearest_double 0.002, nearest_double 0.002, nearest_double 0.001)]"
    by (elim exE conjE) (rule that)
  have "map (\<lambda>p. (gp_lat p, gp_lng p)) ps = map (\<lambda>t. (fst t, fst (snd t)))
          (map (\<lambda>p. (gp_lat p, gp_lng p, gp_res p)) ps)"
    by simp
  also have "\<dots> = [(0, 0), (0, nearest_double 0.001), (0, nearest_double 0.002),
           (nearest_double 0.001, 0), (nearest_double 0.001, nearest_double 0.001),
           (nearest_double 0.001, nearest_double 0.002),
           (nearest_double 0.002, 0), (nearest_double 0.002, nearest_double 0.001),
           (nearest_double 0.002, nearest_double 0.002)]"
    unfolding m by simp
  finally have m2: "map (\<lambda>p. (gp_lat p, gp_lng p)) ps =
          [(0, 0), (0, nearest_double 0.001), (0, nearest_double 0.002),
           (nearest_double 0.001, 0), (nearest_double 0.001, nearest_double 0.001),
           (nearest_double 0.001, nearest_double 0.002),
           (nearest_double 0.002, 0), (nearest_double 0.002, nearest_double 0.001),
           (nearest_double 0.002, nearest_double 0.002)]" .
  have d2: "nearest_double 0.002 = 4611686018427388 / 2 ^ 61"
    unfolding double_0002 double_0001 by simp
  show ?thesis
  proof (rule exI[of _ ps], intro conjI)
    show "generateGrid ?ts (Some (nearest_double 0.001)) = Some (Inr ps)" by (rule g)
    show "map (\<lambda>p. (gp_lat p, gp_lng p)) ps =
          [(0, 0), (0, nearest_double 0.001), (0, nearest_double 0.002),
           (nearest_double 0.001, 0), (nearest_double 0.001, nearest_double 0.001),
           (nearest_double 0.001, nearest_double 0.002),
           (nearest_double 0.002, 0), (nearest_double 0.002, nearest_double 0.001),
           (nearest_double 0.002, nearest_double 0.002)]" by (rule m2)
    show "nearest_double 0.001 = 4611686018427388 / 2 ^ 62" by (rule double_0001)
    show "nearest_double 0.002 = 4611686018427388 / 2 ^ 61" by (rule d2)
  qed
qed

end
